theory Spec2Isabelle
  imports Main "HOL-Library.Word"
begin

section \<open>Machine types\<close>

text \<open>
  \<^verbatim>\<open>size_t\<close> is an unsigned 64-bit integer (an LP64 platform): addition and
  multiplication wrap. \<^verbatim>\<open>IndexType\<close> is declared with the \<^verbatim>\<open>ListData\<close>
  interface, not in the accessors' file, and is taken to be \<^verbatim>\<open>size_t\<close>. The value
  types of the scalar readers are fixed-width words; \<^verbatim>\<open>float\<close> and \<^verbatim>\<open>double\<close>
  values are only passed through by the accessors, so they are carried as their 32- and
  64-bit patterns. A \<^verbatim>\<open>std::string_view\<close> is the string it views.
\<close>

type_synonym size_t = "64 word"
type_synonym IndexType = size_t
type_synonym int8_t = "8 word"
type_synonym int16_t = "16 word"
type_synonym int32_t = "32 word"
type_synonym int64_t = "64 word"
type_synonym float_t = "32 word"
type_synonym double_t = "64 word"
type_synonym int128_t = "128 word"
type_synonym string_view = string

section \<open>Errors\<close>

text \<open>
  Every exception of the accessors is a value. \<^verbatim>\<open>N_ENSURE\<close> throws with the message
  given at the call; the two messages of \<^verbatim>\<open>RowAccessor\<close> are the constructors
  \<open>RowIdOutOfBound\<close> ("row id out of bound", the specification's OutOfRange) and
  \<open>FieldNotFound\<close> ("field {0} not found!", carrying the field name).
  \<open>MapAtOutOfRange\<close> is what \<^verbatim>\<open>dnMap_.at(field)\<close> throws on a missing key, and
  \<open>NoSuchChild\<close> stands for \<^verbatim>\<open>childAt(i)\<close> on a node without an i-th child.
  \<open>EnsureEqFailed\<close> is a failed \<^verbatim>\<open>N_ENSURE_EQ\<close> with its message.
\<close>

datatype error =
    RowIdOutOfBound
  | FieldNotFound string
  | MapAtOutOfRange
  | NoSuchChild
  | EnsureEqFailed string

section \<open>Data nodes\<close>

text \<open>
  The data node class is declared in another file than the accessors, which only call
  its capabilities: \<^verbatim>\<open>isNull(row)\<close>, \<^verbatim>\<open>read<T>(row)\<close> for the nine value types,
  \<^verbatim>\<open>offsetSize(row)\<close> and \<^verbatim>\<open>childAt(i)\<close>. A node is therefore the tuple of these
  capabilities (each an arbitrary function of the row index) and its ordered children.
\<close>

datatype DataNode = DataNode
  (DataNode_isNull: "size_t \<Rightarrow> bool")
  (DataNode_read_bool: "size_t \<Rightarrow> bool")
  (DataNode_read_int8: "size_t \<Rightarrow> int8_t")
  (DataNode_read_int16: "size_t \<Rightarrow> int16_t")
  (DataNode_read_int32: "size_t \<Rightarrow> int32_t")
  (DataNode_read_int64: "size_t \<Rightarrow> int64_t")
  (DataNode_read_float: "size_t \<Rightarrow> float_t")
  (DataNode_read_double: "size_t \<Rightarrow> double_t")
  (DataNode_read_int128: "size_t \<Rightarrow> int128_t")
  (DataNode_read_string: "size_t \<Rightarrow> string_view")
  (DataNode_offsetSize: "size_t \<Rightarrow> size_t \<times> size_t")
  (DataNode_children: "DataNode list")

text \<open>
  Modelled from the spec: the method \<^verbatim>\<open>childAt\<close> of the data node, used as
  \<^verbatim>\<open>childAt<PDataNode>(i).value()\<close>. The specification has it return "the i-th child
  node"; where there is no such child the call is outside its contract, which is the
  error \<open>NoSuchChild\<close> here.
\<close>

definition DataNode_childAt :: "DataNode \<Rightarrow> size_t \<Rightarrow> error + DataNode" where
  "DataNode_childAt n i =
     (if unat i < length (DataNode_children n)
      then Inr (DataNode_children n ! unat i)
      else Inl NoSuchChild)"

section \<open>List accessor\<close>

text \<open>
  The members of \<^verbatim>\<open>ListAccessor\<close> as its constructor call
  \<^verbatim>\<open>ListAccessor(os.first, os.second, child)\<close> and its methods use them:
  \<^verbatim>\<open>offset_\<close>, the element count and \<^verbatim>\<open>node_\<close> (written without the trailing
  underscore).
\<close>

record ListAccessor =
  offset :: IndexType
  count :: IndexType
  node :: DataNode

text \<open>
  \<^verbatim>\<open>inline bool ListAccessor::isNull(IndexType index) const {
    return node_->isNull(index); }\<close>
\<close>

definition ListAccessor_isNull :: "ListAccessor \<Rightarrow> IndexType \<Rightarrow> bool" where
  "ListAccessor_isNull this index = DataNode_isNull (node this) index"

text \<open>
  \<^verbatim>\<open>#define READ_TYPE_BY_ENTRY(TYPE, FUNC)
    TYPE ListAccessor::FUNC(IndexType index) const {
      return node_->read<TYPE>(offset_ + index); }\<close>
  The macro takes \<^verbatim>\<open>read<TYPE>\<close> as its parameter; the nine instances follow.
\<close>

definition READ_TYPE_BY_ENTRY ::
    "(DataNode \<Rightarrow> size_t \<Rightarrow> 'a) \<Rightarrow> ListAccessor \<Rightarrow> IndexType \<Rightarrow> 'a" where
  "READ_TYPE_BY_ENTRY read this index = read (node this) (offset this + index)"

definition ListAccessor_readBool :: "ListAccessor \<Rightarrow> IndexType \<Rightarrow> bool" where
  "ListAccessor_readBool = READ_TYPE_BY_ENTRY DataNode_read_bool"

definition ListAccessor_readByte :: "ListAccessor \<Rightarrow> IndexType \<Rightarrow> int8_t" where
  "ListAccessor_readByte = READ_TYPE_BY_ENTRY DataNode_read_int8"

definition ListAccessor_readShort :: "ListAccessor \<Rightarrow> IndexType \<Rightarrow> int16_t" where
  "ListAccessor_readShort = READ_TYPE_BY_ENTRY DataNode_read_int16"

definition ListAccessor_readInt :: "ListAccessor \<Rightarrow> IndexType \<Rightarrow> int32_t" where
  "ListAccessor_readInt = READ_TYPE_BY_ENTRY DataNode_read_int32"

definition ListAccessor_readLong :: "ListAccessor \<Rightarrow> IndexType \<Rightarrow> int64_t" where
  "ListAccessor_readLong = READ_TYPE_BY_ENTRY DataNode_read_int64"

definition ListAccessor_readFloat :: "ListAccessor \<Rightarrow> IndexType \<Rightarrow> float_t" where
  "ListAccessor_readFloat = READ_TYPE_BY_ENTRY DataNode_read_float"

definition ListAccessor_readDouble :: "ListAccessor \<Rightarrow> IndexType \<Rightarrow> double_t" where
  "ListAccessor_readDouble = READ_TYPE_BY_ENTRY DataNode_read_double"

definition ListAccessor_readInt128 :: "ListAccessor \<Rightarrow> IndexType \<Rightarrow> int128_t" where
  "ListAccessor_readInt128 = READ_TYPE_BY_ENTRY DataNode_read_int128"

definition ListAccessor_readString :: "ListAccessor \<Rightarrow> IndexType \<Rightarrow> string_view" where
  "ListAccessor_readString = READ_TYPE_BY_ENTRY DataNode_read_string"

section \<open>Batch and packed snapshot\<close>

text \<open>
  The packed snapshot is reached through \<^verbatim>\<open>batch_.pod_\<close>, a nullable pointer to a
  \<^verbatim>\<open>BessType\<close>, whose overloaded method
  \<^verbatim>\<open>bool value(field, spaces, bessValue, TYPE& v)\<close> either stores a decoded value in
  \<open>v\<close> and returns true, or returns false. Each overload is an arbitrary function
  to an optional value. The type of \<^verbatim>\<open>batch_.spaces_\<close> is declared in
  \<^verbatim>\<open>Batch.h\<close>; the accessor only passes the member on, and it stays a type
  parameter.
\<close>

record 'sp BessType =
  value_bool :: "string \<Rightarrow> 'sp \<Rightarrow> size_t \<Rightarrow> bool option"
  value_int8 :: "string \<Rightarrow> 'sp \<Rightarrow> size_t \<Rightarrow> int8_t option"
  value_int16 :: "string \<Rightarrow> 'sp \<Rightarrow> size_t \<Rightarrow> int16_t option"
  value_int32 :: "string \<Rightarrow> 'sp \<Rightarrow> size_t \<Rightarrow> int32_t option"
  value_int64 :: "string \<Rightarrow> 'sp \<Rightarrow> size_t \<Rightarrow> int64_t option"
  value_float :: "string \<Rightarrow> 'sp \<Rightarrow> size_t \<Rightarrow> float_t option"
  value_double :: "string \<Rightarrow> 'sp \<Rightarrow> size_t \<Rightarrow> double_t option"
  value_int128 :: "string \<Rightarrow> 'sp \<Rightarrow> size_t \<Rightarrow> int128_t option"
  value_string :: "string \<Rightarrow> 'sp \<Rightarrow> size_t \<Rightarrow> string_view option"

text \<open>
  \<^verbatim>\<open>batch_.bess_\<close> is the bit buffer; the accessor only calls
  \<^verbatim>\<open>readBits(bitOffset, bits)\<close> on it, so the buffer is that function.
\<close>

type_synonym BitSlice = "size_t \<Rightarrow> size_t \<Rightarrow> size_t"

definition readBits :: "BitSlice \<Rightarrow> size_t \<Rightarrow> size_t \<Rightarrow> size_t" where
  "readBits buf bitOffset bits = buf bitOffset bits"

text \<open>
  The members of \<^verbatim>\<open>Batch\<close> that the accessor reads: \<^verbatim>\<open>rows_\<close>, \<^verbatim>\<open>pod_\<close>
  (\<open>None\<close> for \<^verbatim>\<open>nullptr\<close>), \<^verbatim>\<open>bess_\<close>, \<^verbatim>\<open>bessBits_\<close> and \<^verbatim>\<open>spaces_\<close>.
\<close>

record 'sp Batch =
  rows :: size_t
  pod :: "'sp BessType option"
  bess :: BitSlice
  bessBits :: size_t
  spaces :: 'sp

section \<open>Row accessor\<close>

text \<open>
  The members of \<^verbatim>\<open>RowAccessor\<close>: the batch it reads (\<^verbatim>\<open>batch_\<close>), the map from
  field name to data node (\<^verbatim>\<open>dnMap_\<close>), the current row (\<^verbatim>\<open>current_\<close>) and the
  cached bit window of that row (\<^verbatim>\<open>bessValue_\<close>).
\<close>

record 'sp RowAccessor =
  batch :: "'sp Batch"
  dnMap :: "string \<rightharpoonup> DataNode"
  current :: size_t
  bessValue :: size_t

text \<open>
  \<^verbatim>\<open>seek\<close> assigns to members of \<open>*this\<close> and returns \<open>*this\<close> by reference.
  Accessor objects therefore live in a store indexed by address; a method that mutates
  takes the address of its object and the store, and returns its result with the store
  it leaves behind. A thrown exception is the \<open>Inl\<close> result, paired with the store
  as it is when the exception is thrown.
\<close>

type_synonym addr = nat
type_synonym 'sp store = "addr \<Rightarrow> 'sp RowAccessor"

text \<open>
  \<^verbatim>\<open>RowAccessor& RowAccessor::seek(size_t rowId) {
    N_ENSURE(rowId < batch_.rows_, "row id out of bound");
    current_ = rowId;
    if (batch_.pod_ != nullptr) {
      bessValue_ = batch_.bess_.readBits(current_ * batch_.bessBits_, batch_.bessBits_);
    }
    return *this; }\<close>
\<close>

definition RowAccessor_seek ::
    "addr \<Rightarrow> size_t \<Rightarrow> 'sp store \<Rightarrow> (error + addr) \<times> 'sp store" where
  "RowAccessor_seek this rowId s =
     (if \<not> rowId < rows (batch (s this)) then (Inl RowIdOutOfBound, s)
      else
        let s1 = s(this := (s this)\<lparr>current := rowId\<rparr>);
            s2 = (if pod (batch (s1 this)) \<noteq> None
                  then s1(this := (s1 this)\<lparr>bessValue :=
                         readBits (bess (batch (s1 this)))
                           (current (s1 this) * bessBits (batch (s1 this)))
                           (bessBits (batch (s1 this)))\<rparr>)
                  else s1)
        in (Inr this, s2))"

text \<open>
  The remaining methods are \<^verbatim>\<open>const\<close>: they read the object and return a value or
  throw.

  \<^verbatim>\<open>bool RowAccessor::isNull(const std::string& field) const {
    const auto& itr = dnMap_.find(field);
    N_ENSURE(itr != dnMap_.end(), fmt::format("field {0} not found!", field));
    return itr->second->isNull(current_); }\<close>
\<close>

definition RowAccessor_isNull :: "'sp RowAccessor \<Rightarrow> string \<Rightarrow> error + bool" where
  "RowAccessor_isNull this field =
     (case dnMap this field of
        None \<Rightarrow> Inl (FieldNotFound field)
      | Some n \<Rightarrow> Inr (DataNode_isNull n (current this)))"

text \<open>
  \<^verbatim>\<open>#define READ_TYPE_BY_FIELD(TYPE, FUNC)
    TYPE RowAccessor::FUNC(const std::string& field) const {
      TYPE v;
      if (batch_.pod_ != nullptr
          && batch_.pod_->value(field, batch_.spaces_, bessValue_, v)) {
        return v;
      }
      return dnMap_.at(field)->read<TYPE>(current_); }\<close>
  The two paths of the macro are named: \<open>packed_path\<close> is the condition of the
  \<^verbatim>\<open>if\<close> together with the value it leaves in \<open>v\<close>, \<open>DataNode_path\<close> is the
  final \<^verbatim>\<open>return\<close>. The macro takes the overload of \<^verbatim>\<open>value\<close> and
  \<^verbatim>\<open>read<TYPE>\<close> as parameters.
\<close>

definition packed_path ::
    "('sp BessType \<Rightarrow> string \<Rightarrow> 'sp \<Rightarrow> size_t \<Rightarrow> 'a option)
     \<Rightarrow> 'sp RowAccessor \<Rightarrow> string \<Rightarrow> 'a option" where
  "packed_path val this field =
     (case pod (batch this) of
        None \<Rightarrow> None
      | Some p \<Rightarrow> val p field (spaces (batch this)) (bessValue this))"

definition DataNode_path ::
    "(DataNode \<Rightarrow> size_t \<Rightarrow> 'a) \<Rightarrow> 'sp RowAccessor \<Rightarrow> string \<Rightarrow> error + 'a" where
  "DataNode_path read this field =
     (case dnMap this field of
        None \<Rightarrow> Inl MapAtOutOfRange
      | Some n \<Rightarrow> Inr (read n (current this)))"

definition READ_TYPE_BY_FIELD ::
    "('sp BessType \<Rightarrow> string \<Rightarrow> 'sp \<Rightarrow> size_t \<Rightarrow> 'a option)
     \<Rightarrow> (DataNode \<Rightarrow> size_t \<Rightarrow> 'a) \<Rightarrow> 'sp RowAccessor \<Rightarrow> string \<Rightarrow> error + 'a" where
  "READ_TYPE_BY_FIELD val read this field =
     (case packed_path val this field of
        Some v \<Rightarrow> Inr v
      | None \<Rightarrow> DataNode_path read this field)"

definition RowAccessor_readBool :: "'sp RowAccessor \<Rightarrow> string \<Rightarrow> error + bool" where
  "RowAccessor_readBool = READ_TYPE_BY_FIELD value_bool DataNode_read_bool"

definition RowAccessor_readByte :: "'sp RowAccessor \<Rightarrow> string \<Rightarrow> error + int8_t" where
  "RowAccessor_readByte = READ_TYPE_BY_FIELD value_int8 DataNode_read_int8"

definition RowAccessor_readShort :: "'sp RowAccessor \<Rightarrow> string \<Rightarrow> error + int16_t" where
  "RowAccessor_readShort = READ_TYPE_BY_FIELD value_int16 DataNode_read_int16"

definition RowAccessor_readInt :: "'sp RowAccessor \<Rightarrow> string \<Rightarrow> error + int32_t" where
  "RowAccessor_readInt = READ_TYPE_BY_FIELD value_int32 DataNode_read_int32"

definition RowAccessor_readLong :: "'sp RowAccessor \<Rightarrow> string \<Rightarrow> error + int64_t" where
  "RowAccessor_readLong = READ_TYPE_BY_FIELD value_int64 DataNode_read_int64"

definition RowAccessor_readFloat :: "'sp RowAccessor \<Rightarrow> string \<Rightarrow> error + float_t" where
  "RowAccessor_readFloat = READ_TYPE_BY_FIELD value_float DataNode_read_float"

definition RowAccessor_readDouble :: "'sp RowAccessor \<Rightarrow> string \<Rightarrow> error + double_t" where
  "RowAccessor_readDouble = READ_TYPE_BY_FIELD value_double DataNode_read_double"

definition RowAccessor_readInt128 :: "'sp RowAccessor \<Rightarrow> string \<Rightarrow> error + int128_t" where
  "RowAccessor_readInt128 = READ_TYPE_BY_FIELD value_int128 DataNode_read_int128"

definition RowAccessor_readString ::
    "'sp RowAccessor \<Rightarrow> string \<Rightarrow> error + string_view" where
  "RowAccessor_readString = READ_TYPE_BY_FIELD value_string DataNode_read_string"

text \<open>
  \<^verbatim>\<open>std::unique_ptr<ListData> RowAccessor::readList(const std::string& field) const {
    auto listNode = dnMap_.at(field);
    auto child = listNode->childAt<PDataNode>(0).value();
    auto os = listNode->offsetSize(current_);
    return std::make_unique<ListAccessor>(os.first, os.second, child); }\<close>
\<close>

definition RowAccessor_readList ::
    "'sp RowAccessor \<Rightarrow> string \<Rightarrow> error + ListAccessor" where
  "RowAccessor_readList this field =
     (case dnMap this field of
        None \<Rightarrow> Inl MapAtOutOfRange
      | Some listNode \<Rightarrow>
          (case DataNode_childAt listNode 0 of
             Inl e \<Rightarrow> Inl e
           | Inr child \<Rightarrow>
               let os = DataNode_offsetSize listNode (current this)
               in Inr \<lparr>offset = fst os, count = snd os, node = child\<rparr>))"

text \<open>
  \<^verbatim>\<open>std::unique_ptr<MapData> RowAccessor::readMap(const std::string&) const {
    return nullptr; }\<close>
  The result is a nullable pointer: \<open>None\<close> is \<^verbatim>\<open>nullptr\<close>. What a \<^verbatim>\<open>MapData\<close>
  holds is not needed.
\<close>

typedecl MapData

definition RowAccessor_readMap ::
    "'sp RowAccessor \<Rightarrow> string \<Rightarrow> error + MapData option" where
  "RowAccessor_readMap this field = Inr None"

section \<open>Calls on an accessor in a store\<close>

text \<open>
  A caller invokes the methods of one accessor one after the other. \<open>invoke\<close> runs
  one call on the accessor at address \<open>this\<close>: \<^verbatim>\<open>seek\<close> returns the store it
  leaves behind; a \<^verbatim>\<open>const\<close> method reads the object at \<open>this\<close> and the store is
  passed on. \<open>run\<close> runs a list of calls in order, each on the store left by the one
  before it, and collects the results (an exception is a result; the caller goes on).
\<close>

datatype call =
    Seek size_t
  | IsNull string
  | ReadBool string
  | ReadByte string
  | ReadShort string
  | ReadInt string
  | ReadLong string
  | ReadFloat string
  | ReadDouble string
  | ReadInt128 string
  | ReadString string
  | ReadList string
  | ReadMap string

datatype outcome =
    Sought "error + addr"
  | GotNull "error + bool"
  | GotBool "error + bool"
  | GotByte "error + int8_t"
  | GotShort "error + int16_t"
  | GotInt "error + int32_t"
  | GotLong "error + int64_t"
  | GotFloat "error + float_t"
  | GotDouble "error + double_t"
  | GotInt128 "error + int128_t"
  | GotString "error + string_view"
  | GotList "error + ListAccessor"
  | GotMap "error + MapData option"

fun is_read :: "call \<Rightarrow> bool" where
  "is_read (Seek rowId) = False"
| "is_read c = True"

fun invoke :: "call \<Rightarrow> addr \<Rightarrow> 'sp store \<Rightarrow> outcome \<times> 'sp store" where
  "invoke (Seek rowId) this s =
     (case RowAccessor_seek this rowId s of (r, s') \<Rightarrow> (Sought r, s'))"
| "invoke (IsNull f) this s = (GotNull (RowAccessor_isNull (s this) f), s)"
| "invoke (ReadBool f) this s = (GotBool (RowAccessor_readBool (s this) f), s)"
| "invoke (ReadByte f) this s = (GotByte (RowAccessor_readByte (s this) f), s)"
| "invoke (ReadShort f) this s = (GotShort (RowAccessor_readShort (s this) f), s)"
| "invoke (ReadInt f) this s = (GotInt (RowAccessor_readInt (s this) f), s)"
| "invoke (ReadLong f) this s = (GotLong (RowAccessor_readLong (s this) f), s)"
| "invoke (ReadFloat f) this s = (GotFloat (RowAccessor_readFloat (s this) f), s)"
| "invoke (ReadDouble f) this s = (GotDouble (RowAccessor_readDouble (s this) f), s)"
| "invoke (ReadInt128 f) this s = (GotInt128 (RowAccessor_readInt128 (s this) f), s)"
| "invoke (ReadString f) this s = (GotString (RowAccessor_readString (s this) f), s)"
| "invoke (ReadList f) this s = (GotList (RowAccessor_readList (s this) f), s)"
| "invoke (ReadMap f) this s = (GotMap (RowAccessor_readMap (s this) f), s)"

fun run :: "call list \<Rightarrow> addr \<Rightarrow> 'sp store \<Rightarrow> outcome list \<times> 'sp store" where
  "run [] this s = ([], s)"
| "run (c # cs) this s =
     (case invoke c this s of (r, s') \<Rightarrow>
        (case run cs this s' of (rs, s'') \<Rightarrow> (r # rs, s'')))"

section \<open>Type system\<close>

datatype Kind =
    INVALID | BOOLEAN | TINYINT | SMALLINT | INTEGER | BIGINT | REAL | DOUBLE
  | VARCHAR | VARBINARY | TIMESTAMP | ARRAY | MAP | STRUCT

text \<open>
  A \<^verbatim>\<open>Type<KIND>\<close> is a tree node carrying its kind and \<^verbatim>\<open>name_\<close>; the children
  are held by its base class \<^verbatim>\<open>Tree\<close>.
\<close>

datatype TypeNode = TypeNode (Type_kind: Kind) (Type_name: string) (Tree_children: "TypeNode list")

text \<open>
  Modelled from the spec: the constructor of \<^verbatim>\<open>Tree\<close> (\<^verbatim>\<open>Tree.h\<close>), called by
  \<^verbatim>\<open>Type(std::string name) : name_{ name }, Tree<PType>(this)\<close>. A node built from a
  name alone is the specification's "0-child node": it has the kind, the name and no
  child.
\<close>

definition TType :: "Kind \<Rightarrow> string \<Rightarrow> TypeNode" where
  "TType k name = TypeNode k name []"

text \<open>
  \<^verbatim>\<open>template <Kind K, Kind V, bool OK = true>
  static auto create(const std::string& name,
                     const std::shared_ptr<Type<K>>& key,
                     const std::shared_ptr<Type<V>>& value) {
    auto type = TType(name);
    type.addChild(std::static_pointer_cast<Tree<Type<K>*>>(key));
    type.addChild(std::static_pointer_cast<Tree<Type<V>*>>(value));
    N_ENSURE_EQ(type.size(), 2, "only 2 children allowed")
    return type; }\<close>
  enabled only for \<^verbatim>\<open>KIND == Kind::MAP\<close>. \<^verbatim>\<open>addChild\<close> and \<^verbatim>\<open>size\<close> are methods
  of the base class \<^verbatim>\<open>Tree\<close> (\<^verbatim>\<open>Tree.h\<close>); the function takes them as
  parameters.
\<close>

definition Type_MAP_create_with ::
    "(TypeNode \<Rightarrow> TypeNode \<Rightarrow> TypeNode) \<Rightarrow> (TypeNode \<Rightarrow> size_t)
     \<Rightarrow> string \<Rightarrow> TypeNode \<Rightarrow> TypeNode \<Rightarrow> error + TypeNode" where
  "Type_MAP_create_with addChild tree_size name key val =
     (let type0 = TType MAP name;
          type1 = addChild type0 key;
          type2 = addChild type1 val
      in if tree_size type2 = 2 then Inr type2
         else Inl (EnsureEqFailed ''only 2 children allowed''))"

text \<open>
  Modelled from the spec: the method \<^verbatim>\<open>addChild\<close> of \<^verbatim>\<open>Tree\<close>, defined in
  \<^verbatim>\<open>Tree.h\<close>. The specification's type node holds "an ordered sequence of child type
  nodes" and a constructor "attaches" children in argument order: \<open>Tree_addChild\<close>
  puts the child after those already there.
\<close>

definition Tree_addChild :: "TypeNode \<Rightarrow> TypeNode \<Rightarrow> TypeNode" where
  "Tree_addChild t c = TypeNode (Type_kind t) (Type_name t) (Tree_children t @ [c])"

text \<open>
  Modelled from the spec: the method \<^verbatim>\<open>size\<close> of \<^verbatim>\<open>Tree\<close>, defined in
  \<^verbatim>\<open>Tree.h\<close>. The specification's arity is the "child count" of a node:
  \<open>Tree_size\<close> is the number of children, as a \<^verbatim>\<open>size_t\<close>.
\<close>

definition Tree_size :: "TypeNode \<Rightarrow> size_t" where
  "Tree_size t = of_nat (length (Tree_children t))"

definition Type_MAP_create :: "string \<Rightarrow> TypeNode \<Rightarrow> TypeNode \<Rightarrow> error + TypeNode" where
  "Type_MAP_create = Type_MAP_create_with Tree_addChild Tree_size"

section \<open>The two sources of a field's value at a row\<close>




section \<open>A batch of three rows\<close>

text \<open>
  The fixtures are integer columns: \<open>int_column\<close> builds a node from its null flags,
  its 32-bit values, its list slices and its children; the readers of the other types
  return zero, false or the empty string.
\<close>

definition int_column ::
    "(size_t \<Rightarrow> bool) \<Rightarrow> (size_t \<Rightarrow> int32_t) \<Rightarrow> (size_t \<Rightarrow> size_t \<times> size_t)
     \<Rightarrow> DataNode list \<Rightarrow> DataNode" where
  "int_column nulls ints slices kids =
     DataNode nulls (\<lambda>i. False) (\<lambda>i. 0) (\<lambda>i. 0) ints
       (\<lambda>i. 0) (\<lambda>i. 0) (\<lambda>i. 0) (\<lambda>i. 0) (\<lambda>i. []) slices kids"

text \<open>
  INTEGER column \<open>a = [10, 20, 30]\<close> with row 2 marked null, and ARRAY of INTEGER
  column \<open>b = [[1, 2], [3], []]\<close> over its child column \<open>[1, 2, 3]\<close>.
\<close>

definition column_a :: DataNode where
  "column_a = int_column (\<lambda>i. i = 2)
     (\<lambda>i. if i = 0 then 10 else if i = 1 then 20 else 30) (\<lambda>i. (0, 0)) []"

definition column_b_child :: DataNode where
  "column_b_child = int_column (\<lambda>i. False)
     (\<lambda>i. if i = 0 then 1 else if i = 1 then 2 else 3) (\<lambda>i. (0, 0)) []"

definition column_b :: DataNode where
  "column_b = int_column (\<lambda>i. False) (\<lambda>i. 0)
     (\<lambda>i. if i = 0 then (0, 2) else if i = 1 then (2, 1) else (3, 0)) [column_b_child]"

definition example_fields :: "string \<rightharpoonup> DataNode" where
  "example_fields = [''a'' \<mapsto> column_a, ''b'' \<mapsto> column_b]"

text \<open>
  The packed snapshot of the batch encodes field \<open>a\<close> in 32 bits per row: the window
  of row \<open>r\<close> starts at bit \<open>32 * r\<close> and holds the value of \<open>a\<close> at \<open>r\<close>.
\<close>

definition example_pod :: "unit BessType" where
  "example_pod = \<lparr>
     value_bool = (\<lambda>f sp w. None), value_int8 = (\<lambda>f sp w. None),
     value_int16 = (\<lambda>f sp w. None),
     value_int32 = (\<lambda>f sp w. if f = ''a'' then Some (ucast w) else None),
     value_int64 = (\<lambda>f sp w. None), value_float = (\<lambda>f sp w. None),
     value_double = (\<lambda>f sp w. None), value_int128 = (\<lambda>f sp w. None),
     value_string = (\<lambda>f sp w. None)\<rparr>"

definition example_bess :: BitSlice where
  "example_bess = (\<lambda>bitOffset bits.
     if bitOffset = 0 then 10 else if bitOffset = 32 then 20 else 30)"

definition example_batch :: "unit Batch" where
  "example_batch = \<lparr>rows = 3, pod = Some example_pod, bess = example_bess,
     bessBits = 32, spaces = ()\<rparr>"

text \<open>A store in which every address holds an accessor on the batch, not yet positioned.\<close>

definition example_store :: "unit store" where
  "example_store = (\<lambda>a. \<lparr>batch = example_batch, dnMap = example_fields,
     current = 0, bessValue = 0\<rparr>)"



text \<open>
  A child column of four rows whose rows 2 and 3 are null and whose values are
  10, 20, 30, 40.
\<close>

definition example_child :: DataNode where
  "example_child = int_column (\<lambda>i. i = 2 \<or> i = 3)
     (\<lambda>i. if i = 0 then 10 else if i = 1 then 20 else if i = 2 then 30 else 40)
     (\<lambda>i. (0, 0)) []"

section \<open>Auxiliary facts\<close>

text \<open>The object a successful seek leaves at \<open>this\<close>.\<close>

lemma seek_object:
  "rowId < rows (batch (s this)) \<Longrightarrow>
   snd (RowAccessor_seek this rowId s) this =
     (s this)\<lparr>current := rowId,
        bessValue := (if pod (batch (s this)) \<noteq> None
                      then readBits (bess (batch (s this)))
                             (rowId * bessBits (batch (s this))) (bessBits (batch (s this)))
                      else bessValue (s this))\<rparr>"
  by (simp add: RowAccessor_seek_def Let_def)

lemma invoke_read_store: "is_read c \<Longrightarrow> snd (invoke c this s) = s"
  by (cases c) simp_all


text \<open>The accessor at address 0 of the example store after a seek to a row below 3.\<close>

lemma example_seek_object:
  "rowId < 3 \<Longrightarrow>
   snd (RowAccessor_seek 0 rowId example_store) 0 =
     \<lparr>batch = example_batch, dnMap = example_fields, current = rowId,
      bessValue = example_bess (rowId * 32) 32\<rparr>"
  by (simp add: seek_object example_store_def example_batch_def readBits_def)

section \<open>Properties of the list accessor\<close>

text \<open>
  Claim C2. \<^verbatim>\<open>ListAccessor::isNull(localIndex)\<close> is claimed to return
  \<^verbatim>\<open>childNode.isNull(offset + localIndex)\<close>. The method passes \<open>index\<close> to the
  node without adding \<open>offset_\<close>, unlike the scalar readers generated beside it by
  \<^verbatim>\<open>READ_TYPE_BY_ENTRY\<close>, which read at \<open>offset_ + index\<close>. For the list bound to
  (offset 2, count 2) over \<open>example_child\<close>, local index 0 is row 2 of the child, which
  is null, and the method answers for row 0, which is not: the element that
  \<open>readInt\<close> reads as 30 is reported with the null flag of the element holding 10.
\<close>

theorem ListAccessor_isNull_ignores_offset:
  "ListAccessor_isNull \<lparr>offset = 2, count = 2, node = example_child\<rparr> 0 = False
   \<and> DataNode_isNull example_child (2 + 0) = True
   \<and> ListAccessor_readInt \<lparr>offset = 2, count = 2, node = example_child\<rparr> 0 = 30
   \<and> DataNode_read_int32 example_child (2 + 0) = 30"
  by (simp add: ListAccessor_isNull_def ListAccessor_readInt_def READ_TYPE_BY_ENTRY_def
      example_child_def int_column_def)

text \<open>
  Claim C5. For a list accessor bound to (offset, count, childNode), each of the nine
  scalar readers at local index \<open>i\<close> returns \<^verbatim>\<open>childNode.read<T>(offset + i)\<close>, the
  sum taken in \<^verbatim>\<open>size_t\<close>. The readers do not look at the count, so the equation
  holds at every index, in particular at those below the count.
\<close>

theorem ListAccessor_readers_delegate:
  "ListAccessor_readBool \<lparr>offset = off, count = cnt, node = child\<rparr> i
     = DataNode_read_bool child (off + i)
   \<and> ListAccessor_readByte \<lparr>offset = off, count = cnt, node = child\<rparr> i
     = DataNode_read_int8 child (off + i)
   \<and> ListAccessor_readShort \<lparr>offset = off, count = cnt, node = child\<rparr> i
     = DataNode_read_int16 child (off + i)
   \<and> ListAccessor_readInt \<lparr>offset = off, count = cnt, node = child\<rparr> i
     = DataNode_read_int32 child (off + i)
   \<and> ListAccessor_readLong \<lparr>offset = off, count = cnt, node = child\<rparr> i
     = DataNode_read_int64 child (off + i)
   \<and> ListAccessor_readFloat \<lparr>offset = off, count = cnt, node = child\<rparr> i
     = DataNode_read_float child (off + i)
   \<and> ListAccessor_readDouble \<lparr>offset = off, count = cnt, node = child\<rparr> i
     = DataNode_read_double child (off + i)
   \<and> ListAccessor_readInt128 \<lparr>offset = off, count = cnt, node = child\<rparr> i
     = DataNode_read_int128 child (off + i)
   \<and> ListAccessor_readString \<lparr>offset = off, count = cnt, node = child\<rparr> i
     = DataNode_read_string child (off + i)"
  by (simp add: ListAccessor_readBool_def ListAccessor_readByte_def
      ListAccessor_readShort_def ListAccessor_readInt_def ListAccessor_readLong_def
      ListAccessor_readFloat_def ListAccessor_readDouble_def ListAccessor_readInt128_def
      ListAccessor_readString_def READ_TYPE_BY_ENTRY_def)

section \<open>Properties of seek\<close>

text \<open>
  Claim C3. \<^verbatim>\<open>seek(rowId)\<close> fails with the out-of-bound error if and only if
  \<open>rowId\<close> is at least the row count. For \<open>rowId\<close> below the row count it returns
  the address of the accessor it was called on, and the store differs from the one
  before only at that address: there the current row is \<open>rowId\<close> and, when a packed
  snapshot is configured, the cached bit window is the \<open>bessBits\<close> bits read at bit
  \<open>rowId * bessBits\<close> (the product in \<^verbatim>\<open>size_t\<close>); without a snapshot the
  cached window is left as it was.
\<close>

theorem RowAccessor_seek_spec:
  "(fst (RowAccessor_seek this rowId s) = Inl RowIdOutOfBound)
     = (rows (batch (s this)) \<le> rowId)
   \<and> (rowId < rows (batch (s this)) \<longrightarrow>
        RowAccessor_seek this rowId s =
          (Inr this,
           s(this := (s this)\<lparr>current := rowId,
               bessValue := (if pod (batch (s this)) \<noteq> None
                             then readBits (bess (batch (s this)))
                                    (rowId * bessBits (batch (s this)))
                                    (bessBits (batch (s this)))
                             else bessValue (s this))\<rparr>)))"
proof (cases "rowId < rows (batch (s this))")
  case True
  then show ?thesis
    by (simp add: RowAccessor_seek_def Let_def not_le)
next
  case False
  then show ?thesis
    by (simp add: RowAccessor_seek_def not_less)
qed

theorem RowAccessor_seek_spec_witness:
  "(1 :: size_t) < rows (batch (example_store 0))
   \<and> RowAccessor_seek 0 1 example_store =
       (Inr 0, example_store(0 := \<lparr>batch = example_batch, dnMap = example_fields,
                  current = 1, bessValue = 20\<rparr>))
   \<and> rows (batch (example_store 0)) \<le> 3
   \<and> fst (RowAccessor_seek 0 3 example_store) = Inl RowIdOutOfBound"
  using RowAccessor_seek_spec [of 0 1 example_store]
    RowAccessor_seek_spec [of 0 3 example_store]
  by (simp add: example_store_def example_batch_def example_bess_def readBits_def)

text \<open>
  Claim C9. A failing seek is atomic: for \<open>rowId\<close> at least the row count, the call
  throws the out-of-bound error and the store it leaves is the store it found, so the
  current row and the cached bit window of the accessor are as before.
\<close>

theorem RowAccessor_seek_failure_atomic:
  "rows (batch (s this)) \<le> rowId \<Longrightarrow>
   RowAccessor_seek this rowId s = (Inl RowIdOutOfBound, s)"
  by (simp add: RowAccessor_seek_def not_less)

theorem RowAccessor_seek_failure_atomic_witness:
  "rows (batch (snd (RowAccessor_seek 0 1 example_store) 0)) \<le> 3
   \<and> RowAccessor_seek 0 3 (snd (RowAccessor_seek 0 1 example_store))
       = (Inl RowIdOutOfBound, snd (RowAccessor_seek 0 1 example_store))
   \<and> current (snd (RowAccessor_seek 0 3 (snd (RowAccessor_seek 0 1 example_store))) 0) = 1
   \<and> bessValue (snd (RowAccessor_seek 0 3 (snd (RowAccessor_seek 0 1 example_store))) 0) = 20"
proof -
  let ?s = "snd (RowAccessor_seek 0 1 example_store)"
  have acc: "?s 0 = \<lparr>batch = example_batch, dnMap = example_fields, current = 1,
      bessValue = example_bess (1 * 32) 32\<rparr>"
    by (rule example_seek_object) simp
  then have r: "rows (batch (?s 0)) \<le> 3"
    by (simp add: example_batch_def)
  from RowAccessor_seek_failure_atomic [of ?s 0 3] r
  have "RowAccessor_seek 0 3 ?s = (Inl RowIdOutOfBound, ?s)"
    by blast
  with r acc show ?thesis
    by (simp add: example_bess_def)
qed

section \<open>Properties of the row accessor's readers\<close>

text \<open>
  Claim C6. For an accessor at current row \<open>r\<close>, \<^verbatim>\<open>isNull(field)\<close> fails with the
  field-not-found error exactly when the name is not a key of the accessor's field map
  (it fails with no other error), and for a name mapped to a data node it returns that
  node's \<^verbatim>\<open>isNull(r)\<close>.
\<close>

theorem RowAccessor_isNull_spec:
  "(RowAccessor_isNull acc field = Inl (FieldNotFound field)) = (field \<notin> dom (dnMap acc))
   \<and> (\<forall>e. RowAccessor_isNull acc field = Inl e \<longrightarrow> e = FieldNotFound field)
   \<and> (\<forall>n. dnMap acc field = Some n \<longrightarrow>
          RowAccessor_isNull acc field = Inr (DataNode_isNull n (current acc)))"
  by (auto simp: RowAccessor_isNull_def split: option.splits)

theorem RowAccessor_isNull_spec_witness:
  "dnMap (snd (RowAccessor_seek 0 2 example_store) 0) ''a'' = Some column_a
   \<and> RowAccessor_isNull (snd (RowAccessor_seek 0 2 example_store) 0) ''a'' = Inr True
   \<and> ''c'' \<notin> dom (dnMap (example_store 0))
   \<and> RowAccessor_isNull (example_store 0) ''c'' = Inl (FieldNotFound ''c'')"
proof -
  let ?acc = "snd (RowAccessor_seek 0 2 example_store) 0"
  have acc: "?acc = \<lparr>batch = example_batch, dnMap = example_fields, current = 2,
      bessValue = example_bess (2 * 32) 32\<rparr>"
    by (rule example_seek_object) simp
  have m: "dnMap ?acc ''a'' = Some column_a"
    by (simp add: acc example_fields_def)
  have n: "DataNode_isNull column_a (current ?acc) = True"
    by (simp add: acc column_a_def int_column_def)
  have c: "''c'' \<notin> dom (dnMap (example_store 0))"
    by (simp add: example_store_def example_fields_def)
  have "RowAccessor_isNull ?acc ''a'' = Inr (DataNode_isNull column_a (current ?acc))"
    using RowAccessor_isNull_spec [of ?acc "''a''"] m by blast
  moreover have "RowAccessor_isNull (example_store 0) ''c'' = Inl (FieldNotFound ''c'')"
    using RowAccessor_isNull_spec [of "example_store 0" "''c''"] c by blast
  ultimately show ?thesis
    using m n c by simp
qed

text \<open>
  Claim C4. For an accessor at current row \<open>r\<close> and a field whose data node yields
  a child at index 0 (the single child of an ARRAY node), \<^verbatim>\<open>readList(field)\<close> returns
  the list accessor bound to (offset, count, childNode), where childNode is that child
  and (offset, count) is the node's \<^verbatim>\<open>offsetSize(r)\<close>.
\<close>

theorem RowAccessor_readList_binds:
  "dnMap acc field = Some listNode \<Longrightarrow>
   DataNode_childAt listNode 0 = Inr child \<Longrightarrow>
   DataNode_offsetSize listNode (current acc) = (off, cnt) \<Longrightarrow>
   RowAccessor_readList acc field = Inr \<lparr>offset = off, count = cnt, node = child\<rparr>"
  by (simp add: RowAccessor_readList_def)

theorem RowAccessor_readList_binds_witness:
  "dnMap (snd (RowAccessor_seek 0 0 example_store) 0) ''b'' = Some column_b
   \<and> DataNode_childAt column_b 0 = Inr column_b_child
   \<and> DataNode_offsetSize column_b (current (snd (RowAccessor_seek 0 0 example_store) 0))
       = (0, 2)
   \<and> RowAccessor_readList (snd (RowAccessor_seek 0 0 example_store) 0) ''b''
       = Inr \<lparr>offset = 0, count = 2, node = column_b_child\<rparr>
   \<and> ListAccessor_readInt \<lparr>offset = 0, count = 2, node = column_b_child\<rparr> 0 = 1
   \<and> ListAccessor_readInt \<lparr>offset = 0, count = 2, node = column_b_child\<rparr> 1 = 2"
proof -
  let ?acc = "snd (RowAccessor_seek 0 0 example_store) 0"
  have acc: "?acc = \<lparr>batch = example_batch, dnMap = example_fields, current = 0,
      bessValue = example_bess (0 * 32) 32\<rparr>"
    by (rule example_seek_object) simp
  have m: "dnMap ?acc ''b'' = Some column_b"
    by (simp add: acc example_fields_def)
  have k: "DataNode_childAt column_b 0 = Inr column_b_child"
    by (simp add: DataNode_childAt_def column_b_def int_column_def)
  have os: "DataNode_offsetSize column_b (current ?acc) = (0, 2)"
    by (simp add: acc column_b_def int_column_def)
  from RowAccessor_readList_binds [OF m k os] m k os show ?thesis
    by (simp add: ListAccessor_readInt_def READ_TYPE_BY_ENTRY_def column_b_child_def
        int_column_def)
qed

text \<open>
  Claim C7. For every field name, whether in the field map or not, and every accessor
  state, \<^verbatim>\<open>readMap(field)\<close> returns the null pointer: it raises no error and never
  returns a map.
\<close>

theorem RowAccessor_readMap_absent: "RowAccessor_readMap acc field = Inr None"
  by (simp add: RowAccessor_readMap_def)

text \<open>
  Claim C10. The read operations (\<^verbatim>\<open>isNull\<close>, the nine scalar readers,
  \<^verbatim>\<open>readList\<close>, \<^verbatim>\<open>readMap\<close>) leave the accessor unchanged: a sequence of calls
  none of which is a seek leaves the store, and so the current row and the cached bit
  window, as it found them, and every call of the sequence returns what it returns when
  called first, on the row the accessor was at.
\<close>

theorem reads_leave_accessor_unchanged:
  "\<forall>c \<in> set cs. is_read c \<Longrightarrow>
   snd (run cs this s) = s
   \<and> fst (run cs this s) = map (\<lambda>c. fst (invoke c this s)) cs"
proof (induction cs)
  case Nil
  then show ?case
    by simp
next
  case (Cons c cs)
  then have "snd (invoke c this s) = s"
    by (simp add: invoke_read_store)
  then obtain r where r: "invoke c this s = (r, s)"
    by (metis prod.collapse)
  obtain rs s' where rs: "run cs this s = (rs, s')"
    by (cases "run cs this s")
  from Cons rs have "s' = s" and "rs = map (\<lambda>c. fst (invoke c this s)) cs"
    by simp_all
  with r rs show ?case
    by simp
qed

theorem reads_leave_accessor_unchanged_witness:
  "list_all is_read [ReadInt ''a'', IsNull ''a'', ReadList ''b'', ReadMap ''b'', ReadInt ''a'']
   \<and> snd (run [ReadInt ''a'', IsNull ''a'', ReadList ''b'', ReadMap ''b'', ReadInt ''a''] 0
        (snd (RowAccessor_seek 0 1 example_store)))
      = snd (RowAccessor_seek 0 1 example_store)
   \<and> fst (run [ReadInt ''a'', IsNull ''a'', ReadList ''b'', ReadMap ''b'', ReadInt ''a''] 0
        (snd (RowAccessor_seek 0 1 example_store)))
      = [GotInt (Inr 20), GotNull (Inr False),
         GotList (Inr \<lparr>offset = 2, count = 1, node = column_b_child\<rparr>),
         GotMap (Inr None), GotInt (Inr 20)]"
proof -
  let ?s = "snd (RowAccessor_seek 0 1 example_store)"
  let ?cs = "[ReadInt ''a'', IsNull ''a'', ReadList ''b'', ReadMap ''b'', ReadInt ''a'']"
  have acc: "?s 0 = \<lparr>batch = example_batch, dnMap = example_fields, current = 1,
      bessValue = example_bess (1 * 32) 32\<rparr>"
    by (rule example_seek_object) simp
  have reads: "\<forall>c \<in> set ?cs. is_read c"
    by simp
  have "map (\<lambda>c. fst (invoke c 0 ?s)) ?cs
      = [GotInt (Inr 20), GotNull (Inr False),
         GotList (Inr \<lparr>offset = 2, count = 1, node = column_b_child\<rparr>),
         GotMap (Inr None), GotInt (Inr 20)]"
    by (simp add: acc example_batch_def example_fields_def column_a_def column_b_def
        int_column_def example_bess_def example_pod_def RowAccessor_readInt_def
        READ_TYPE_BY_FIELD_def packed_path_def DataNode_path_def RowAccessor_isNull_def
        RowAccessor_readList_def RowAccessor_readMap_def DataNode_childAt_def)
  with reads_leave_accessor_unchanged [OF reads, of 0 ?s] reads show ?thesis
    by simp
qed




section \<open>Properties of the type system\<close>

text \<open>
  Claim C8. \<^verbatim>\<open>createMap(name, keyType, valueType)\<close> builds a MAP node of the given
  name whose children are exactly the key type and the value type, in that order.
  Whatever \<^verbatim>\<open>addChild\<close> and \<^verbatim>\<open>size\<close> do, construction fails with the
  "only 2 children allowed" assertion exactly when the size of the node after both
  \<^verbatim>\<open>addChild\<close> calls is not 2, and otherwise returns that node.
\<close>

theorem Type_MAP_create_spec:
  "Type_MAP_create name key val = Inr (TypeNode MAP name [key, val])
   \<and> (Type_MAP_create_with addChild tree_size name key val
         = Inl (EnsureEqFailed ''only 2 children allowed''))
       = (tree_size (addChild (addChild (TType MAP name) key) val) \<noteq> 2)
   \<and> (Type_MAP_create_with addChild tree_size name key val
         = Inr (addChild (addChild (TType MAP name) key) val))
       = (tree_size (addChild (addChild (TType MAP name) key) val) = 2)"
  by (simp add: Type_MAP_create_def Type_MAP_create_with_def Tree_addChild_def
      Tree_size_def TType_def Let_def)

theorem Type_MAP_create_spec_witness:
  "Type_MAP_create ''m'' (TType VARCHAR ''k'') (TType INTEGER ''v'')
     = Inr (TypeNode MAP ''m'' [TypeNode VARCHAR ''k'' [], TypeNode INTEGER ''v'' []])
   \<and> Tree_size (TType MAP ''m'') \<noteq> 2
   \<and> Type_MAP_create_with (\<lambda>t c. t) Tree_size ''m'' (TType VARCHAR ''k'')
       (TType INTEGER ''v'')
     = Inl (EnsureEqFailed ''only 2 children allowed'')"
  using Type_MAP_create_spec [of "''m''" "TType VARCHAR ''k''" "TType INTEGER ''v''"
      "\<lambda>t c. t" Tree_size]
  by (simp add: TType_def Tree_size_def)

end
